theory Spec2Isabelle
  imports Complex_Main
begin

section \<open>Strings as the interpreter handles them\<close>

text \<open>
  The pricing pipeline of \<^verbatim>\<open>MarkPx.py\<close> works on Python strings. They are modelled as
  \<^typ>\<open>string\<close>, a list of 8-bit characters; the model follows the interpreter on ASCII
  text (case mapping, whitespace and digits outside ASCII are not modelled).
\<close>

text \<open>\<^verbatim>\<open>ord(c)\<close>\<close>
definition py_ord :: "char \<Rightarrow> int" where
  "py_ord c = of_char c"

text \<open>Upper-casing of one character: the letters a to z move down by 32.\<close>
definition upper_char :: "char \<Rightarrow> char" where
  "upper_char c = (if 97 \<le> py_ord c \<and> py_ord c \<le> 122 then char_of (py_ord c - 32) else c)"

text \<open>\<^verbatim>\<open>str.upper()\<close>\<close>
definition py_upper :: "string \<Rightarrow> string" where
  "py_upper s = map upper_char s"

text \<open>\<^verbatim>\<open>str.isspace()\<close> on one character: tab, LF, VT, FF, CR, then FS, GS, RS, US and
  space.\<close>
definition py_isspace :: "char \<Rightarrow> bool" where
  "py_isspace c = ((9 \<le> py_ord c \<and> py_ord c \<le> 13) \<or> (28 \<le> py_ord c \<and> py_ord c \<le> 32))"

text \<open>\<^verbatim>\<open>str.strip()\<close>\<close>
definition py_strip :: "string \<Rightarrow> string" where
  "py_strip s = rev (dropWhile py_isspace (rev (dropWhile py_isspace s)))"

text \<open>\<^verbatim>\<open>str.split()\<close> with no separator: the maximal runs of non-whitespace. The first
  argument is the token being read, reversed.\<close>
fun split_ws :: "string \<Rightarrow> string \<Rightarrow> string list" where
  "split_ws cur [] = (if cur = [] then [] else [rev cur])"
| "split_ws cur (c # cs) =
     (if py_isspace c
      then (if cur = [] then split_ws [] cs else rev cur # split_ws [] cs)
      else split_ws (c # cur) cs)"

definition py_split :: "string \<Rightarrow> string list" where
  "py_split s = split_ws [] s"

text \<open>\<^verbatim>\<open>str.split(sep)\<close> for a one-character separator: empty fields are kept, and the
  result is never empty.\<close>
fun split_on :: "char \<Rightarrow> string \<Rightarrow> string \<Rightarrow> string list" where
  "split_on d cur [] = [rev cur]"
| "split_on d cur (c # cs) =
     (if c = d then rev cur # split_on d [] cs else split_on d (c # cur) cs)"

definition py_split_sep :: "char \<Rightarrow> string \<Rightarrow> string list" where
  "py_split_sep d s = split_on d [] s"

text \<open>\<^verbatim>\<open>sep.join(parts)\<close>\<close>
fun py_join :: "string \<Rightarrow> string list \<Rightarrow> string" where
  "py_join sep [] = []"
| "py_join sep [x] = x"
| "py_join sep (x # y # ys) = x @ sep @ py_join sep (y # ys)"

text \<open>\<^verbatim>\<open>str.count(c)\<close> for one character\<close>
definition py_count :: "char \<Rightarrow> string \<Rightarrow> nat" where
  "py_count c s = length (filter (\<lambda>x. x = c) s)"

text \<open>\<^verbatim>\<open>str.startswith(p)\<close>\<close>
definition startswith :: "string \<Rightarrow> string \<Rightarrow> bool" where
  "startswith s p = (take (length p) s = p)"

definition is_digit :: "char \<Rightarrow> bool" where
  "is_digit c = (48 \<le> py_ord c \<and> py_ord c \<le> 57)"

definition digit_val :: "char \<Rightarrow> int" where
  "digit_val c = py_ord c - 48"

text \<open>\<^verbatim>\<open>str.isdigit()\<close>: non-empty and digits only.\<close>
definition py_isdigit :: "string \<Rightarrow> bool" where
  "py_isdigit s = (s \<noteq> [] \<and> list_all is_digit s)"

text \<open>
  The digits of \<^verbatim>\<open>int(s)\<close> after the sign: decimal digits, where single underscores may
  stand between two digits. The flag says that the previous character was a digit; the
  integer is the value read so far. \<open>None\<close> is the interpreter's \<^verbatim>\<open>ValueError\<close>.
\<close>
fun int_body :: "bool \<Rightarrow> int \<Rightarrow> string \<Rightarrow> int option" where
  "int_body pd acc [] = (if pd then Some acc else None)"
| "int_body pd acc (c # cs) =
     (if is_digit c then int_body True (10 * acc + digit_val c) cs
      else if c = CHR ''_'' \<and> pd then int_body False acc cs
      else None)"

text \<open>\<^verbatim>\<open>int(s)\<close> on a string without surrounding whitespace: an optional sign, then the
  digits.\<close>
definition py_int :: "string \<Rightarrow> int option" where
  "py_int s =
     (case s of
        [] \<Rightarrow> None
      | c # cs \<Rightarrow>
          if c = CHR ''+'' then int_body False 0 cs
          else if c = CHR ''-'' then map_option uminus (int_body False 0 cs)
          else int_body False 0 s)"

section \<open>The leg parser\<close>

datatype side = Buy | Sell

record leg =
  instrument :: string
  side :: side
  quantity :: int

text \<open>
  \<^verbatim>\<open>parse_leg_string\<close> is a sequence of steps, each a block of the source. The first
  joins the instrument tokens: one token is taken as it is, four or three tokens are
  joined with hyphens, any other number is a format error.
\<close>
definition join_instrument :: "string list \<Rightarrow> string option" where
  "join_instrument instrument_parts =
     (if length instrument_parts = 1 then Some (hd instrument_parts)
      else if length instrument_parts = 4 then Some (py_join ''-'' instrument_parts)
      else if length instrument_parts = 3 then Some (py_join ''-'' instrument_parts)
      else None)"

text \<open>Quantity auto-correction: a quantity without sign becomes a buy when it is all digits
  and the instrument has at least two hyphens, and is an error otherwise.\<close>
definition correct_quantity :: "string \<Rightarrow> string \<Rightarrow> string option" where
  "correct_quantity qty_str instr =
     (if \<not> (startswith qty_str ''+'' \<or> startswith qty_str ''-'')
      then (if py_isdigit qty_str \<and> py_count CHR ''-'' instr \<ge> 2
            then Some (''+'' @ qty_str) else None)
      else Some qty_str)"

text \<open>Default to BTC when no known currency leads the instrument.\<close>
definition default_currency :: "string \<Rightarrow> string" where
  "default_currency instr =
     (if \<not> (startswith instr ''BTC-'' \<or> startswith instr ''ETH-''
             \<or> startswith instr ''USDC-'')
      then ''BTC-'' @ instr else instr)"

text \<open>The abbreviated BTC strike: in a four-part BTC instrument, a strike of at most three
  digits gets three zeros.\<close>
definition expand_strike :: "string \<Rightarrow> string" where
  "expand_strike instr =
     (if startswith instr ''BTC-''
      then (let parts = py_split_sep CHR ''-'' instr in
            if length parts = 4
            then (let strike_str = parts ! 2 in
                  if py_isdigit strike_str \<and> length strike_str \<le> 3
                  then py_join ''-'' (parts[2 := strike_str @ ''000''])
                  else instr)
            else instr)
      else instr)"

text \<open>Final parsing: the side from the sign, the quantity from the rest of the token; a
  \<^verbatim>\<open>ValueError\<close>, raised by \<^verbatim>\<open>int\<close> or for a quantity that is not positive, is the
  error result.\<close>
definition final_parsing :: "string \<Rightarrow> string \<Rightarrow> leg option" where
  "final_parsing qty_str instr =
     (let sd = (if startswith qty_str ''+'' then Buy else Sell) in
      case py_int (tl qty_str) of
        None \<Rightarrow> None
      | Some q \<Rightarrow>
          if q \<le> 0 then None
          else Some \<lparr>instrument = py_upper instr, side = sd, quantity = q\<rparr>)"

text \<open>\<open>None\<close> is the source's \<^verbatim>\<open>return None\<close>; each such branch only logs.\<close>
definition parse_leg_string :: "string \<Rightarrow> leg option" where
  "parse_leg_string leg_string =
     (let parts = py_split (py_upper (py_strip leg_string)) in
      if length parts < 2 then None
      else
        let qty_str = hd parts;
            instrument_parts = tl parts in
        case join_instrument instrument_parts of
          None \<Rightarrow> None
        | Some instr \<Rightarrow>
            (case correct_quantity qty_str instr of
               None \<Rightarrow> None
             | Some qty_str \<Rightarrow>
                 final_parsing qty_str (expand_strike (default_currency instr))))"

section \<open>Quotes and the arithmetic on prices\<close>

text \<open>
  Prices are the interpreter's floating-point numbers. Their arithmetic and their
  formatting are parameters of the model: a record holding \<^verbatim>\<open>0.0\<close>, \<^verbatim>\<open>+\<close>, unary
  \<^verbatim>\<open>-\<close>, the product of a price and an integer, and the two format specifications the
  report uses, \<^verbatim>\<open>:.4f\<close> and \<^verbatim>\<open>:,.0f\<close>. The theorems hold for every such record; they
  take the operations as total functions.
\<close>

record 'p price_ops =
  fzero :: 'p
  fadd :: "'p \<Rightarrow> 'p \<Rightarrow> 'p"
  fneg :: "'p \<Rightarrow> 'p"
  fmul_int :: "'p \<Rightarrow> int \<Rightarrow> 'p"
  fmt4 :: "'p \<Rightarrow> string"
  fmt_grouped :: "'p \<Rightarrow> string"

text \<open>
  What one HTTP request can come to: an exception inside the \<^verbatim>\<open>try\<close> block (transport
  error, timeout, non-2xx status, malformed body), a payload without
  \<^verbatim>\<open>result.mark_price\<close>, or a payload with it. In the last case the first field is
  \<^verbatim>\<open>data['result']['mark_price']\<close> (\<open>None\<close> for a JSON null) and the second is
  \<^verbatim>\<open>data['result'].get('index_price')\<close>.
\<close>
datatype 'p response = RequestFailed | MarkPriceMissing | Ticker "'p option" "'p option"

type_synonym 'p quote = "string \<times> 'p option \<times> 'p option"

definition get_instrument_mark_price_async :: "'p response \<Rightarrow> string \<Rightarrow> 'p quote" where
  "get_instrument_mark_price_async r instrument_name =
     (case r of
        Ticker mark_price index_price \<Rightarrow> (instrument_name, mark_price, index_price)
      | MarkPriceMissing \<Rightarrow> (instrument_name, None, None)
      | RequestFailed \<Rightarrow> (instrument_name, None, None))"

section \<open>Formatting\<close>

definition digit_char :: "int \<Rightarrow> char" where
  "digit_char d = char_of (48 + d)"

text \<open>The decimal digits of a non-negative integer.\<close>
function show_digits :: "int \<Rightarrow> string" where
  "show_digits n =
     (if n < 10 then [digit_char n] else show_digits (n div 10) @ [digit_char (n mod 10)])"
  by pat_completeness auto
termination
  by (relation "measure nat") auto

text \<open>\<^verbatim>\<open>str(n)\<close> of an integer\<close>
definition show_int :: "int \<Rightarrow> string" where
  "show_int i = (if i < 0 then ''-'' @ show_digits (- i) else show_digits i)"

text \<open>The format specification \<^verbatim>\<open>:<n\<close>: pad with spaces on the right up to width n.\<close>
definition ljust :: "nat \<Rightarrow> string \<Rightarrow> string" where
  "ljust n s = s @ replicate (n - length s) CHR '' ''"

definition side_str :: "side \<Rightarrow> string" where
  "side_str sd = (case sd of Buy \<Rightarrow> ''buy'' | Sell \<Rightarrow> ''sell'')"

definition leg_prefix :: "leg \<Rightarrow> string" where
  "leg_prefix l = '' '' @ ljust 4 (py_upper (side_str (side l))) @ '' ''
                  @ show_int (quantity l) @ ''x '' @ ljust 22 (instrument l) @ '': ''"

definition priced_line :: "'p price_ops \<Rightarrow> leg \<Rightarrow> 'p \<Rightarrow> string" where
  "priced_line ops l mark_price = leg_prefix l @ fmt4 ops mark_price"

definition error_line :: "leg \<Rightarrow> string" where
  "error_line l = leg_prefix l @ ''ERROR (Price not found)''"

definition newline :: string where
  "newline = [CHR 0x0A]"

section \<open>The strategy pricer\<close>

text \<open>
  The calls the pricer makes are recorded in a trace, so that "no fetch is performed" and
  "no later string is parsed" are statements about its result.
\<close>
datatype event = ParseCall string | FetchCall string

definition is_fetch :: "event \<Rightarrow> bool" where
  "is_fetch e = (case e of FetchCall _ \<Rightarrow> True | ParseCall _ \<Rightarrow> False)"

text \<open>Step 1: the parsing loop. It returns at the first string that does not parse.\<close>
fun parse_legs :: "string list \<Rightarrow> leg list \<Rightarrow> event list \<Rightarrow> (string + leg list) \<times> event list" where
  "parse_legs [] strategy_legs tr = (Inr strategy_legs, tr)"
| "parse_legs (leg_str # rest) strategy_legs tr =
     (case parse_leg_string leg_str of
        Some parsed_leg \<Rightarrow> parse_legs rest (strategy_legs @ [parsed_leg]) (tr @ [ParseCall leg_str])
      | None \<Rightarrow> (Inl (''Error: Invalid leg format: '' @ [CHR 0x27] @ leg_str @ [CHR 0x27]),
                 tr @ [ParseCall leg_str]))"

definition underlying :: "leg \<Rightarrow> string" where
  "underlying l = hd (py_split_sep CHR ''-'' (instrument l))"

definition mismatch_error :: "string \<Rightarrow> string \<Rightarrow> string" where
  "mismatch_error a b =
     ''Error: All legs must have the same underlying currency. Found '' @ [CHR 0x27] @ a
     @ [CHR 0x27] @ '' and '' @ [CHR 0x27] @ b @ [CHR 0x27] @ ''.''"

text \<open>Step 2: the consistency loop. \<^verbatim>\<open>not first_underlying\<close> holds for \<^verbatim>\<open>None\<close> and for
  the empty string.\<close>
fun check_underlying :: "leg list \<Rightarrow> string option \<Rightarrow> string + string option" where
  "check_underlying [] first_underlying = Inr first_underlying"
| "check_underlying (l # ls) first_underlying =
     (let current_underlying = underlying l in
      case first_underlying of
        None \<Rightarrow> check_underlying ls (Some current_underlying)
      | Some fu \<Rightarrow>
          if fu = [] then check_underlying ls (Some current_underlying)
          else if fu \<noteq> current_underlying then Inl (mismatch_error fu current_underlying)
          else check_underlying ls first_underlying)"

text \<open>Step 3: one request per leg; \<^verbatim>\<open>asyncio.gather\<close> returns the results in the order of
  the tasks. The network answers the i-th task with \<open>net i name\<close>.\<close>
fun fetch_all :: "(nat \<Rightarrow> string \<Rightarrow> 'p response) \<Rightarrow> nat \<Rightarrow> leg list \<Rightarrow> 'p quote list" where
  "fetch_all net i [] = []"
| "fetch_all net i (l # ls) =
     get_instrument_mark_price_async (net i (instrument l)) (instrument l)
       # fetch_all net (Suc i) ls"

text \<open>Step 4: the dictionary of mark prices, keyed by instrument, and the index price.\<close>
fun collect_results ::
  "nat \<Rightarrow> 'p quote list \<Rightarrow> (string \<rightharpoonup> 'p option) \<Rightarrow> 'p option
     \<Rightarrow> (string \<rightharpoonup> 'p option) \<times> 'p option" where
  "collect_results i [] price_map index_price = (price_map, index_price)"
| "collect_results i ((instr, mark_price, idx_px) # rs) price_map index_price =
     collect_results (Suc i) rs (price_map(instr \<mapsto> mark_price))
       (if i = 0 \<and> idx_px \<noteq> None then idx_px else index_price)"

text \<open>\<^verbatim>\<open>price_map.get(instrument)\<close>: \<open>None\<close> for a missing key and for a stored \<open>None\<close>.\<close>
definition dict_get :: "(string \<rightharpoonup> 'p option) \<Rightarrow> string \<Rightarrow> 'p option" where
  "dict_get price_map k = (case price_map k of None \<Rightarrow> None | Some v \<Rightarrow> v)"

text \<open>Step 4, second loop: the running total, the lines and the success flag.\<close>
fun price_legs ::
  "'p price_ops \<Rightarrow> (string \<rightharpoonup> 'p option) \<Rightarrow> leg list \<Rightarrow> 'p \<times> string list \<times> bool
     \<Rightarrow> 'p \<times> string list \<times> bool" where
  "price_legs ops price_map [] st = st"
| "price_legs ops price_map (l # ls) (total_price, price_details, ok) =
     (case dict_get price_map (instrument l) of
        Some mark_price \<Rightarrow>
          (let leg_price = fmul_int ops mark_price (quantity l);
               leg_price = (if side l = Sell then fneg ops leg_price else leg_price)
           in price_legs ops price_map ls
                (fadd ops total_price leg_price, price_details @ [priced_line ops l mark_price], ok))
      | None \<Rightarrow>
          price_legs ops price_map ls (total_price, price_details @ [error_line l], False))"

definition separator :: string where
  "separator = newline @ replicate 40 CHR ''-''"

definition net_failed_line :: string where
  "net_failed_line = ''  Net Combo Mark: N/A (Could not fetch price for all legs)''"

definition net_line :: "'p price_ops \<Rightarrow> 'p \<Rightarrow> string option \<Rightarrow> 'p option \<Rightarrow> string" where
  "net_line ops total_price first_underlying index_price =
     ''  Net Combo Mark: '' @ fmt4 ops total_price @ '' ''
     @ (case first_underlying of None \<Rightarrow> ''None'' | Some fu \<Rightarrow> fu) @ newline
     @ ''  Index Ref: $''
     @ (case index_price of None \<Rightarrow> ''N/A'' | Some ip \<Rightarrow> fmt_grouped ops ip)"

text \<open>Step 5: the report.\<close>
definition render ::
  "'p price_ops \<Rightarrow> string option \<Rightarrow> 'p option \<Rightarrow> 'p \<times> string list \<times> bool \<Rightarrow> string" where
  "render ops first_underlying index_price st =
     (case st of (total_price, price_details, ok) \<Rightarrow>
        py_join newline
          ([''Combo Mark Price per unit'' @ newline] @ price_details @ [separator]
           @ [if ok then net_line ops total_price first_underlying index_price
              else net_failed_line]))"

text \<open>\<^verbatim>\<open>mark_px\<close>: the string it returns, and the calls it made.\<close>
definition mark_px ::
  "'p price_ops \<Rightarrow> (nat \<Rightarrow> string \<Rightarrow> 'p response) \<Rightarrow> string list \<Rightarrow> string \<times> event list" where
  "mark_px ops net strategy_legs_input =
     (case parse_legs strategy_legs_input [] [] of
        (Inl err, tr) \<Rightarrow> (err, tr)
      | (Inr strategy_legs, tr) \<Rightarrow>
          if strategy_legs = [] then (''Error: No valid strategy legs provided.'', tr)
          else
            (case check_underlying strategy_legs None of
               Inl err \<Rightarrow> (err, tr)
             | Inr first_underlying \<Rightarrow>
                 (let results = fetch_all net 0 strategy_legs;
                      tr' = tr @ map (\<lambda>l. FetchCall (instrument l)) strategy_legs;
                      (price_map, index_price) = collect_results 0 results Map.empty None;
                      st = price_legs ops price_map strategy_legs (fzero ops, [], True)
                  in (render ops first_underlying index_price st, tr'))))"

section \<open>An exact arithmetic for evaluation\<close>

text \<open>
  One instance of the operations, over the rationals: exact sums and products, and
  decimal formatting that rounds half to even. It is used to run the pricer on concrete
  requests.
\<close>

definition round_half_even :: "rat \<Rightarrow> int" where
  "round_half_even x =
     (let f = \<lfloor>x\<rfloor>; d = x - of_int f in
      if d < 1 / 2 then f else if 1 / 2 < d then f + 1
      else if even f then f else f + 1)"

definition zero_pad :: "nat \<Rightarrow> string \<Rightarrow> string" where
  "zero_pad k s = replicate (k - length s) CHR ''0'' @ s"

definition fixed4 :: "rat \<Rightarrow> string" where
  "fixed4 x =
     (let n = round_half_even (\<bar>x\<bar> * 10000) in
      (if x < 0 then ''-'' else []) @ show_digits (n div 10000) @ ''.''
      @ zero_pad 4 (show_digits (n mod 10000)))"

fun group3 :: "string \<Rightarrow> string" where
  "group3 (a # b # c # d # rest) = a # b # c # CHR '','' # group3 (d # rest)"
| "group3 xs = xs"

definition grouped0 :: "rat \<Rightarrow> string" where
  "grouped0 x =
     (let n = round_half_even \<bar>x\<bar> in
      (if x < 0 then ''-'' else []) @ rev (group3 (rev (show_digits n))))"

definition exact_ops :: "rat price_ops" where
  "exact_ops = \<lparr>fzero = 0, fadd = (+), fneg = uminus,
                fmul_int = (\<lambda>p q. p * of_int q), fmt4 = fixed4, fmt_grouped = grouped0\<rparr>"

section \<open>Notions used in the statements\<close>

definition known_currency :: "string \<Rightarrow> bool" where
  "known_currency s = (startswith s ''BTC-'' \<or> startswith s ''ETH-'' \<or> startswith s ''USDC-'')"












subsection \<open>Concrete requests\<close>

text \<open>Networks for running the pricer: each answers the task at position \<open>i\<close>.\<close>

definition net_both_priced :: "nat \<Rightarrow> string \<Rightarrow> rat response" where
  "net_both_priced i name =
     (if i = 0 then Ticker (Some (1 / 10)) (Some 110000) else Ticker (Some (5 / 100)) (Some 110000))"





section \<open>Strings and the parser: auxiliary facts\<close>

lemma py_ord_char_of: "0 \<le> n \<Longrightarrow> n < 256 \<Longrightarrow> py_ord (char_of n) = n"
  by (simp add: py_ord_def)

lemma upper_char_idem: "upper_char (upper_char c) = upper_char c"
  by (simp add: upper_char_def py_ord_char_of)

lemma py_upper_idem: "py_upper (py_upper s) = py_upper s"
  by (simp add: py_upper_def upper_char_idem)




lemma startswith_upper: "py_upper p = p \<Longrightarrow> startswith s p \<Longrightarrow> startswith (py_upper s) p"
  unfolding startswith_def py_upper_def by (metis take_map)

lemma upper_BTC: "py_upper ''BTC-'' = ''BTC-''" and upper_ETH: "py_upper ''ETH-'' = ''ETH-''"
  and upper_USDC: "py_upper ''USDC-'' = ''USDC-''"
  by (simp_all add: py_upper_def upper_char_def py_ord_def)

lemma known_currency_upper: "known_currency s \<Longrightarrow> known_currency (py_upper s)"
  unfolding known_currency_def
  using startswith_upper upper_BTC upper_ETH upper_USDC by blast

lemma known_currency_default: "known_currency (default_currency s)"
  by (simp add: known_currency_def default_currency_def startswith_def)

lemma startswith_obtain: "startswith s p \<Longrightarrow> \<exists>r. s = p @ r"
  unfolding startswith_def by (metis append_take_drop_id)

lemma split_BTC:
  assumes "startswith s ''BTC-''"
  shows "\<exists>rest. py_split_sep CHR ''-'' s = ''BTC'' # rest"
proof -
  from assms obtain r where "s = ''BTC-'' @ r" using startswith_obtain by blast
  then show ?thesis by (simp add: py_split_sep_def)
qed

lemma py_join_Cons: "ps \<noteq> [] \<Longrightarrow> py_join sep (x # ps) = x @ sep @ py_join sep ps"
  by (cases ps) simp_all

lemma known_currency_expand: "known_currency s \<Longrightarrow> known_currency (expand_strike s)"
proof (cases "startswith s ''BTC-''")
  case False
  assume "known_currency s"
  with False show ?thesis by (simp add: expand_strike_def)
next
  case True
  let ?ps = "py_split_sep CHR ''-'' s"
  from split_BTC[OF True] obtain rest where ps: "?ps = ''BTC'' # rest" by blast
  have "known_currency (py_join ''-'' (?ps[2 := t]))" if "length ?ps = 4" for t
  proof -
    from that ps have "?ps[2 := t] = ''BTC'' # (rest[1 := t])" and "rest[1 := t] \<noteq> []"
      by (auto simp: numeral_2_eq_2)
    then show ?thesis
      by (simp add: py_join_Cons known_currency_def startswith_def)
  qed
  moreover have "known_currency s" using True by (simp add: known_currency_def)
  ultimately show ?thesis
    by (simp add: expand_strike_def Let_def)
qed

lemma parse_known_currency:
  assumes "parse_leg_string s = Some l"
  shows "known_currency (instrument l)"
proof -
  from assms obtain q i where "final_parsing q (expand_strike (default_currency i)) = Some l"
    by (auto simp: parse_leg_string_def Let_def split: if_splits option.splits)
  then have "instrument l = py_upper (expand_strike (default_currency i))"
    by (auto simp: final_parsing_def Let_def split: if_splits option.splits)
  then show ?thesis
    by (simp add: known_currency_upper known_currency_expand known_currency_default)
qed

lemma parse_upper:
  assumes "parse_leg_string s = Some l"
  shows "py_upper (instrument l) = instrument l"
proof -
  from assms obtain q i where "final_parsing q (expand_strike (default_currency i)) = Some l"
    by (auto simp: parse_leg_string_def Let_def split: if_splits option.splits)
  then have "instrument l = py_upper (expand_strike (default_currency i))"
    by (auto simp: final_parsing_def Let_def split: if_splits option.splits)
  then show ?thesis
    by (simp add: py_upper_idem)
qed










lemma split_on_length: "length (split_on d cur s) = Suc (py_count d s)"
  by (induction s arbitrary: cur) (simp_all add: py_count_def)

lemma known_currency_fields:
  assumes "known_currency s"
  shows "2 \<le> length (py_split_sep CHR ''-'' s)"
proof -
  from assms consider r where "s = ''BTC-'' @ r" | r where "s = ''ETH-'' @ r"
    | r where "s = ''USDC-'' @ r"
    unfolding known_currency_def using startswith_obtain by blast
  then have "1 \<le> py_count CHR ''-'' s"
    by cases (simp_all add: py_count_def)
  then show ?thesis
    by (simp add: py_split_sep_def split_on_length)
qed






section \<open>The pricer: auxiliary facts\<close>



lemma parse_legs_fail:
  "map parse_leg_string pre = map Some ls \<Longrightarrow> parse_leg_string bad = None \<Longrightarrow>
   parse_legs (pre @ bad # post) acc tr =
     (Inl (''Error: Invalid leg format: '' @ [CHR 0x27] @ bad @ [CHR 0x27]),
      tr @ map ParseCall (pre @ [bad]))"
proof (induction pre arbitrary: ls acc tr)
  case Nil
  then show ?case by simp
next
  case (Cons s ss)
  then obtain l ls' where ls: "ls = l # ls'" and l: "parse_leg_string s = Some l"
    and rest: "map parse_leg_string ss = map Some ls'"
    by (cases ls) auto
  from Cons.IH[OF rest Cons.prems(2)] show ?case by (simp add: l ls)
qed

lemma check_underlying_Some:
  "fu \<noteq> [] \<Longrightarrow>
   check_underlying ls (Some fu) =
     (case find (\<lambda>l. underlying l \<noteq> fu) ls of
        None \<Rightarrow> Inr (Some fu)
      | Some l \<Rightarrow> Inl (mismatch_error fu (underlying l)))"
  by (induction ls) (auto simp: Let_def)

lemma check_underlying_None:
  "underlying l \<noteq> [] \<Longrightarrow>
   check_underlying (l # ls) None =
     (case find (\<lambda>x. underlying x \<noteq> underlying l) ls of
        None \<Rightarrow> Inr (Some (underlying l))
      | Some x \<Rightarrow> Inl (mismatch_error (underlying l) (underlying x)))"
  by (simp add: Let_def check_underlying_Some)


















section \<open>Claims about the leg parser\<close>

text \<open>
  C9, as amended. Every leg that \<^verbatim>\<open>parse_leg_string\<close> returns has an instrument that is
  upper-case and starts with \<^verbatim>\<open>BTC-\<close>, \<^verbatim>\<open>ETH-\<close> or \<^verbatim>\<open>USDC-\<close>, so that it has at least two
  hyphen-separated fields. The parser does not check the number of fields: it need not be
  four.
\<close>
theorem parse_instrument_canonical:
  assumes "parse_leg_string s = Some l"
  shows "py_upper (instrument l) = instrument l
         \<and> (startswith (instrument l) ''BTC-'' \<or> startswith (instrument l) ''ETH-''
            \<or> startswith (instrument l) ''USDC-'')
         \<and> 2 \<le> length (py_split_sep CHR ''-'' (instrument l))"
  using parse_upper[OF assms] parse_known_currency[OF assms]
    known_currency_fields[OF parse_known_currency[OF assms]]
  by (simp add: known_currency_def)

theorem parse_instrument_canonical_witness:
  "py_upper ''BTC-26SEP25-95000-P'' = ''BTC-26SEP25-95000-P''
   \<and> (startswith ''BTC-26SEP25-95000-P'' ''BTC-'' \<or> startswith ''BTC-26SEP25-95000-P'' ''ETH-''
      \<or> startswith ''BTC-26SEP25-95000-P'' ''USDC-'')
   \<and> 2 \<le> length (py_split_sep CHR ''-'' ''BTC-26SEP25-95000-P'')"
proof -
  have p: "parse_leg_string ''+1 26sep25 95 p''
             = Some \<lparr>instrument = ''BTC-26SEP25-95000-P'', side = Buy, quantity = 1\<rparr>"
    by code_simp
  from parse_instrument_canonical[OF p] show ?thesis by simp
qed

text \<open>
  C9 as stated fails: the instrument \<^verbatim>\<open>FOO\<close> is accepted and comes back as \<^verbatim>\<open>BTC-FOO\<close>,
  with two fields, and four spaced tokens without a known currency come back with five
  fields.
\<close>
theorem parse_instrument_canonical_counterexample:
  "parse_leg_string ''+1 FOO'' = Some \<lparr>instrument = ''BTC-FOO'', side = Buy, quantity = 1\<rparr>
   \<and> py_split_sep CHR ''-'' ''BTC-FOO'' = [''BTC'', ''FOO'']
   \<and> parse_leg_string ''+1 XRP 26SEP25 3 C''
       = Some \<lparr>instrument = ''BTC-XRP-26SEP25-3-C'', side = Buy, quantity = 1\<rparr>
   \<and> length (py_split_sep CHR ''-'' ''BTC-XRP-26SEP25-3-C'') = 5"
  by code_simp




section \<open>Claims about the pricer\<close>

text \<open>
  C3. If some string of the input list fails to parse, \<^verbatim>\<open>mark_px\<close> returns the error
  message carrying the first failing string: when every string of \<open>pre\<close> parses and \<open>bad\<close>
  does not, the result for \<open>pre @ bad # post\<close> is the invalid-format error quoting \<open>bad\<close>.
  The calls made are the parse calls on \<open>pre\<close> and on \<open>bad\<close>, in this order: no string of
  \<open>post\<close> is parsed and no quote is fetched. The returned string is the error alone, so
  there is no partial pricing output.
\<close>
theorem mark_px_first_parse_failure:
  assumes "\<forall>s\<in>set pre. parse_leg_string s \<noteq> None"
    and "parse_leg_string bad = None"
  shows "mark_px ops net (pre @ bad # post) =
           (''Error: Invalid leg format: '' @ [CHR 0x27] @ bad @ [CHR 0x27],
            map ParseCall pre @ [ParseCall bad])
         \<and> filter is_fetch (snd (mark_px ops net (pre @ bad # post))) = []"
proof -
  from assms(1) have "map parse_leg_string pre = map Some (map (the \<circ> parse_leg_string) pre)"
    by (induction pre) auto
  from parse_legs_fail[OF this assms(2), of post "[]" "[]"]
  have "parse_legs (pre @ bad # post) [] [] =
          (Inl (''Error: Invalid leg format: '' @ [CHR 0x27] @ bad @ [CHR 0x27]),
           map ParseCall (pre @ [bad]))"
    by simp
  then show ?thesis
    by (simp add: mark_px_def is_fetch_def)
qed

theorem mark_px_first_parse_failure_witness:
  "mark_px exact_ops net_both_priced
     [''+1 BTC-26SEP25-95000-P'', ''+0 BTC-26SEP25-100000-C'', ''two words'', ''-1 ETH-26SEP25-4000-C'']
   = (''Error: Invalid leg format: '' @ [CHR 0x27] @ ''+0 BTC-26SEP25-100000-C'' @ [CHR 0x27],
      [ParseCall ''+1 BTC-26SEP25-95000-P'', ParseCall ''+0 BTC-26SEP25-100000-C''])"
proof -
  have ok: "\<forall>s\<in>set [''+1 BTC-26SEP25-95000-P'']. parse_leg_string s \<noteq> None"
    by code_simp
  have bad: "parse_leg_string ''+0 BTC-26SEP25-100000-C'' = None"
    by code_simp
  from mark_px_first_parse_failure[OF ok bad,
      of exact_ops net_both_priced "[''two words'', ''-1 ETH-26SEP25-4000-C'']"]
  show ?thesis by simp
qed



















end
